theory Spec2Isabelle
  imports Main
begin

section \<open>The WHERE translator of FireSQL (src/select/where.ts)\<close>

text \<open>
  The file \<^verbatim>\<open>src/select/where.ts\<close> compiles the parsed WHERE clause of a SQL
  statement into a list of Firestore queries. The functions \<^verbatim>\<open>applyWhere\<close>,
  \<^verbatim>\<open>applyCondition\<close>, \<^verbatim>\<open>whereFilterOp\<close>, \<^verbatim>\<open>stringASTWhereValue\<close> and
  \<^verbatim>\<open>parseWhereLike\<close> are embedded below, one HOL function each, with the same
  names, the same order of tests and the same order of evaluation. A thrown
  \<^verbatim>\<open>Error\<close> is the left summand of the result.
\<close>

subsection \<open>Data model\<close>

text \<open>
  The AST of the SQL parser is a tree of objects tagged by their \<^verbatim>\<open>type\<close> field.
  The tags the translator tests are \<^verbatim>\<open>binary_expr\<close>, \<^verbatim>\<open>column_ref\<close>,
  \<^verbatim>\<open>expr_list\<close>, \<^verbatim>\<open>string\<close>, \<^verbatim>\<open>number\<close>, \<^verbatim>\<open>bool\<close> and \<^verbatim>\<open>null\<close>; every
  other tag is \<open>OtherNode\<close>. The operator of a binary expression stays a string,
  as in the source, whose dispatch ends in a default branch. The payload of a
  number literal is never inspected by the translator and is left as the type
  parameter \<open>'n\<close>. A discriminator such as \<open>is_column_ref n\<close> stands for the test
  \<^verbatim>\<open>n.type === 'column_ref'\<close>, a selector such as \<open>column n\<close> for the field access
  \<^verbatim>\<open>n.column\<close>.
\<close>

datatype 'n node =
    is_binary_expr: BinaryExpr string "'n node" "'n node"
  | is_column_ref: ColumnRef (column: string)
  | is_expr_list: ExprList (list_value: "'n node list")
  | is_string: StringValue (string_value: string)
  | is_number: NumberValue (number_value: 'n)
  | is_bool: BoolValue (bool_value: bool)
  | is_null: NullValue
  | OtherNode

text \<open>A JavaScript \<^verbatim>\<open>Error\<close> carries its message.\<close>

datatype error = Error string

text \<open>
  The native values a filter compares with (\<^verbatim>\<open>boolean | string | number | null\<close>)
  and the filter operators of the store (\<^verbatim>\<open>firebase.firestore.WhereFilterOp\<close>).
\<close>

datatype 'n native =
    NativeString string
  | NativeNumber 'n
  | NativeBool bool
  | NativeNull

datatype WhereFilterOp =
    OpEq              \<comment> \<open>\<^verbatim>\<open>'=='\<close>\<close>
  | OpLt              \<comment> \<open>\<^verbatim>\<open>'<'\<close>\<close>
  | OpLe              \<comment> \<open>\<^verbatim>\<open>'<='\<close>\<close>
  | OpGt              \<comment> \<open>\<^verbatim>\<open>'>'\<close>\<close>
  | OpGe              \<comment> \<open>\<^verbatim>\<open>'>='\<close>\<close>
  | OpArrayContains     \<comment> \<open>\<^verbatim>\<open>'array-contains'\<close>\<close>
  | OpArrayContainsAny  \<comment> \<open>\<^verbatim>\<open>'array-contains-any'\<close>\<close>

text \<open>
  A \<^verbatim>\<open>firebase.firestore.Query\<close> belongs to the Firestore SDK. The translator
  only ever calls \<^verbatim>\<open>query.where(field, operator, value)\<close> on it, which returns a
  new query and leaves the receiver as it was. A query is therefore the list of
  the filters applied so far, oldest first, and \<open>query_where\<close> appends one.
\<close>

type_synonym 'n filter_primitive = "string \<times> WhereFilterOp \<times> 'n native"

type_synonym 'n query = "'n filter_primitive list"

definition query_where ::
  "'n query \<Rightarrow> string \<Rightarrow> WhereFilterOp \<Rightarrow> 'n native \<Rightarrow> 'n query" where
  "query_where query field operator v = query @ [(field, operator, v)]"

text \<open>
  Two helpers of \<^verbatim>\<open>src/utils\<close> are parameters of the translator:
  \<^verbatim>\<open>astValueToNative\<close>, which may throw, and \<^verbatim>\<open>prefixSuccessor\<close>, a total function
  on strings.
\<close>

type_synonym 'n converter = "'n node \<Rightarrow> error + 'n native"

subsection \<open>Helpers of the runtime\<close>

text \<open>
  Modelled from the spec: \<^verbatim>\<open>assert(condition, message)\<close> of \<^verbatim>\<open>src/utils\<close>, which
  fails fast with \<open>message\<close> when \<open>condition\<close> is false.
\<close>

definition assert :: "bool \<Rightarrow> string \<Rightarrow> error + unit" where
  "assert condition message = (if condition then Inr () else Inl (Error message))"

text \<open>
  JavaScript string primitives, on a string as the list of its code units.
  \<open>charAt str i\<close> is \<^verbatim>\<open>str[i]\<close>, which is \<^verbatim>\<open>undefined\<close> (\<open>None\<close>) out of range;
  \<open>substr\<close> is \<^verbatim>\<open>String.prototype.substr(start, length)\<close> and \<open>substring\<close> is
  \<^verbatim>\<open>String.prototype.substring(start)\<close>, both with their clamping of the
  arguments.
\<close>

definition charAt :: "string \<Rightarrow> int \<Rightarrow> char option" where
  "charAt str i = (if 0 \<le> i \<and> i < int (length str) then Some (str ! nat i) else None)"

definition substr :: "string \<Rightarrow> int \<Rightarrow> int \<Rightarrow> string" where
  "substr str start len =
     (let size = int (length str);
          from = (if start < 0 then max (size + start) 0 else min start size);
          n = min (max len 0) (size - from)
      in take (nat n) (drop (nat from) str))"

definition substring :: "string \<Rightarrow> int \<Rightarrow> string" where
  "substring str start = drop (nat (min (max start 0) (int (length str)))) str"

subsection \<open>whereFilterOp\<close>

definition whereFilterOp :: "string \<Rightarrow> error + WhereFilterOp" where
  \<open>whereFilterOp op =
     (if op = ''='' \<or> op = ''IS'' then Inr OpEq
      else if op = ''<'' then Inr OpLt
      else if op = ''<='' then Inr OpLe
      else if op = ''>'' then Inr OpGt
      else if op = ''>='' then Inr OpGe
      else if op = ''CONTAINS'' then Inr OpArrayContains
      else if op = ''CONTAINS-ANY'' then Inr OpArrayContainsAny
      else if op = ''NOT'' \<or> op = ''NOT CONTAINS''
        then Inl (Error ''"NOT" WHERE operator unsupported'')
      else Inl (Error ''Unknown WHERE operator''))\<close>

subsection \<open>parseWhereLike\<close>

record 'n WhereLikeResult =
  beginsWith :: "'n node option"
  endsWith :: "'n node option"
  contains :: "'n node option"
  equals :: "'n node option"

definition stringASTWhereValue :: "string \<Rightarrow> 'n node" where
  "stringASTWhereValue str = StringValue str"

definition parseWhereLike :: "string \<Rightarrow> 'n WhereLikeResult" where
  "parseWhereLike str =
     (let result = \<lparr>beginsWith = None, endsWith = None, contains = None, equals = None\<rparr>;
          strLength = int (length str)
      in if charAt str 0 = Some (CHR ''%'') then
           (if charAt str (strLength - 1) = Some (CHR ''%'')
            then result\<lparr>contains := Some (stringASTWhereValue (substr str 1 (strLength - 2)))\<rparr>
            else result\<lparr>endsWith := Some (stringASTWhereValue (substring str 1))\<rparr>)
         else if charAt str (strLength - 1) = Some (CHR ''%'')
           then result\<lparr>beginsWith := Some (stringASTWhereValue (substr str 0 (strLength - 1)))\<rparr>
         else result\<lparr>equals := Some (stringASTWhereValue str)\<rparr>)"

subsection \<open>applyCondition\<close>

function applyCondition ::
  "'n converter \<Rightarrow> 'n query list \<Rightarrow> string \<Rightarrow> string \<Rightarrow> 'n node \<Rightarrow> error + 'n query list"
where
  "applyCondition astValueToNative queries field astOperator astValue =
     (if astOperator = ''!='' \<or> astOperator = ''<>'' then
        (if is_bool astValue then
           applyCondition astValueToNative queries field ''=''
             (BoolValue (\<not> bool_value astValue))
         else
           (case applyCondition astValueToNative queries field ''<'' astValue of
              Inl e \<Rightarrow> Inl e
            | Inr lt \<Rightarrow>
                (case applyCondition astValueToNative queries field ''>'' astValue of
                   Inl e \<Rightarrow> Inl e
                 | Inr gt \<Rightarrow> Inr (lt @ gt))))
      else
        (case astValueToNative astValue of
           Inl e \<Rightarrow> Inl e
         | Inr v \<Rightarrow>
             (case whereFilterOp astOperator of
                Inl e \<Rightarrow> Inl e
              | Inr operator \<Rightarrow>
                  Inr (map (\<lambda>query. query_where query field operator v) queries))))"
  by pat_completeness auto
termination
  by (relation "measure (\<lambda>(c, qs, f, op, v). if op = ''!='' \<or> op = ''<>'' then 1 else 0)")
     auto

declare applyCondition.simps [simp del]

subsection \<open>applyWhere\<close>

text \<open>
  The \<^verbatim>\<open>forEach\<close> of the \<^verbatim>\<open>IN\<close> branch: for each value of the list in turn, the
  queries of \<^verbatim>\<open>applyCondition(queries, column, '=', valueObj)\<close> are pushed onto
  \<^verbatim>\<open>newQueries\<close>; a throw ends the loop.
\<close>

fun forEach_push ::
  "'n converter \<Rightarrow> 'n query list \<Rightarrow> string \<Rightarrow> 'n node list \<Rightarrow> 'n query list
     \<Rightarrow> error + 'n query list" where
  "forEach_push astValueToNative queries col [] newQueries = Inr newQueries"
| "forEach_push astValueToNative queries col (valueObj # rest) newQueries =
     (case applyCondition astValueToNative queries col ''='' valueObj of
        Inl e \<Rightarrow> Inl e
      | Inr pushed \<Rightarrow> forEach_push astValueToNative queries col rest (newQueries @ pushed))"

fun applyWhere ::
  "'n converter \<Rightarrow> (string \<Rightarrow> string) \<Rightarrow> 'n query list \<Rightarrow> 'n node \<Rightarrow> error + 'n query list"
where
  \<open>applyWhere astValueToNative prefixSuccessor queries (BinaryExpr op l r) =
     (if op = ''AND'' then
        (case applyWhere astValueToNative prefixSuccessor queries l of
           Inl e \<Rightarrow> Inl e
         | Inr queries1 \<Rightarrow> applyWhere astValueToNative prefixSuccessor queries1 r)
      else if op = ''OR'' then
        (case applyWhere astValueToNative prefixSuccessor queries l of
           Inl e \<Rightarrow> Inl e
         | Inr ql \<Rightarrow>
             (case applyWhere astValueToNative prefixSuccessor queries r of
                Inl e \<Rightarrow> Inl e
              | Inr qr \<Rightarrow> Inr (ql @ qr)))
      else if op = ''IN'' then
        (case assert (is_column_ref l) ''Unsupported WHERE type on left side.'' of
           Inl e \<Rightarrow> Inl e
         | Inr _ \<Rightarrow>
        (case assert (is_expr_list r) ''Unsupported WHERE type on right side.'' of
           Inl e \<Rightarrow> Inl e
         | Inr _ \<Rightarrow>
             forEach_push astValueToNative queries (column l) (list_value r) []))
      else if op = ''LIKE'' then
        (case assert (is_column_ref l) ''Unsupported WHERE type on left side.'' of
           Inl e \<Rightarrow> Inl e
         | Inr _ \<Rightarrow>
        (case assert (is_string r)
                ''Only strings are supported with LIKE in WHERE clause.'' of
           Inl e \<Rightarrow> Inl e
         | Inr _ \<Rightarrow>
             (let whereLike = parseWhereLike (string_value r) in
              case equals whereLike of
                Some eqv \<Rightarrow> applyCondition astValueToNative queries (column l) ''='' eqv
              | None \<Rightarrow>
                  (case beginsWith whereLike of
                     Some bw \<Rightarrow>
                       (let successorStr = prefixSuccessor (string_value bw) in
                        case applyCondition astValueToNative queries (column l) ''>='' bw of
                          Inl e \<Rightarrow> Inl e
                        | Inr queries1 \<Rightarrow>
                            applyCondition astValueToNative queries1 (column l) ''<''
                              (stringASTWhereValue successorStr))
                   | None \<Rightarrow>
                       Inl (Error ''Only terms in the form of "value%" (string begins with value) and "value" (string equals value) are supported with LIKE in WHERE clause.'')))))
      else if op = ''BETWEEN'' then
        (case assert (is_column_ref l) ''Unsupported WHERE type on left side.'' of
           Inl e \<Rightarrow> Inl e
         | Inr _ \<Rightarrow>
        (case assert (is_expr_list r \<and> length (list_value r) = 2)
                ''BETWEEN needs 2 values in WHERE clause.'' of
           Inl e \<Rightarrow> Inl e
         | Inr _ \<Rightarrow>
             (case applyCondition astValueToNative queries (column l) ''>=''
                     (list_value r ! 0) of
                Inl e \<Rightarrow> Inl e
              | Inr queries1 \<Rightarrow>
                  applyCondition astValueToNative queries1 (column l) ''<=''
                    (list_value r ! 1))))
      else if op = ''CONTAINS'' then
        (case assert (is_column_ref l) ''Unsupported WHERE type on left side.'' of
           Inl e \<Rightarrow> Inl e
         | Inr _ \<Rightarrow>
        (case assert (is_string r \<or> is_number r \<or> is_bool r \<or> is_null r)
                ''Only strings, numbers, booleans, and null are supported with CONTAINS in WHERE clause.'' of
           Inl e \<Rightarrow> Inl e
         | Inr _ \<Rightarrow> applyCondition astValueToNative queries (column l) op r))
      else
        (case assert (is_column_ref l) ''Unsupported WHERE type on left side.'' of
           Inl e \<Rightarrow> Inl e
         | Inr _ \<Rightarrow> applyCondition astValueToNative queries (column l) op r))\<close>
| \<open>applyWhere astValueToNative prefixSuccessor queries (ColumnRef col) =
     Inr (map (\<lambda>query. query_where query col OpEq (NativeBool True)) queries)\<close>
| \<open>applyWhere astValueToNative prefixSuccessor queries _ =
     Inl (Error ''Unsupported WHERE clause'')\<close>

subsection \<open>Definitions used to state the properties\<close>

text \<open>The JavaScript string of a filter operator, as the store receives it.\<close>

fun WhereFilterOp_string :: "WhereFilterOp \<Rightarrow> string" where
  "WhereFilterOp_string OpEq = ''==''"
| "WhereFilterOp_string OpLt = ''<''"
| "WhereFilterOp_string OpLe = ''<=''"
| "WhereFilterOp_string OpGt = ''>''"
| "WhereFilterOp_string OpGe = ''>=''"
| "WhereFilterOp_string OpArrayContains = ''array-contains''"
| "WhereFilterOp_string OpArrayContainsAny = ''array-contains-any''"

text \<open>
  \<open>conjoin queries fs\<close> extends every query of \<open>queries\<close> by every filter list
  of \<open>fs\<close>: for each filter list in turn, all the queries with that list
  appended. It describes how a translation acts on the incoming query set.
\<close>

definition conjoin :: "'n query list \<Rightarrow> 'n query list \<Rightarrow> 'n query list" where
  "conjoin queries fs = concat (map (\<lambda>fl. map (\<lambda>query. query @ fl) queries) fs)"

text \<open>
  The results of a sequence of calls, the way exceptions combine them: the first
  throw wins, otherwise the list of all the values.
\<close>

fun collect_results :: "(error + 'a) list \<Rightarrow> error + 'a list" where
  "collect_results [] = Inr []"
| "collect_results (r # rs) =
     (case r of
        Inl e \<Rightarrow> Inl e
      | Inr x \<Rightarrow> (case collect_results rs of Inl e \<Rightarrow> Inl e | Inr xs \<Rightarrow> Inr (x # xs)))"

text \<open>
  Modelled from the spec: the value-literal converter \<^verbatim>\<open>astValueToNative\<close> of
  \<^verbatim>\<open>src/utils\<close>, which turns a tagged literal node into the native scalar and is
  total over string, number, bool and null. On any other node the spec says
  nothing; this instance throws there. It is used for the concrete examples
  only: the theorems hold for every converter.
\<close>

fun literalToNative :: "'n converter" where
  "literalToNative (StringValue str) = Inr (NativeString str)"
| "literalToNative (NumberValue n) = Inr (NativeNumber n)"
| "literalToNative (BoolValue b) = Inr (NativeBool b)"
| "literalToNative NullValue = Inr NativeNull"
| "literalToNative _ = Inl (Error ''Unsupported value type'')"

text \<open>
  Modelled from the spec: the prefix successor \<^verbatim>\<open>prefixSuccessor\<close> of
  \<^verbatim>\<open>src/utils\<close>, built the way the spec suggests: increment the final
  character, cascading on overflow. It is used for the concrete examples only:
  the theorems hold for every successor function.
\<close>

fun incrementLast :: "string \<Rightarrow> string" where
  "incrementLast [] = []"
| "incrementLast (ch # rest) =
     (if of_char ch = (255 :: nat) then incrementLast rest
      else char_of (of_char ch + (1 :: nat)) # rest)"

definition successorByIncrement :: "string \<Rightarrow> string" where
  "successorByIncrement str = rev (incrementLast (rev str))"

section \<open>Auxiliary facts\<close>

subsection \<open>Evaluating the helpers\<close>

lemma assert_True [simp]: "assert True message = Inr ()"
  and assert_False [simp]: "assert False message = Inl (Error message)"
  by (simp_all add: assert_def)

lemma collect_results_all_Inr:
  "(\<forall>x \<in> set xs. f x = Inr (g x)) \<Longrightarrow> collect_results (map f xs) = Inr (map g xs)"
  by (induction xs) simp_all

lemma whereFilterOp_eq [simp]: "whereFilterOp ''='' = Inr OpEq"
  and whereFilterOp_lt [simp]: "whereFilterOp ''<'' = Inr OpLt"
  and whereFilterOp_le [simp]: "whereFilterOp ''<='' = Inr OpLe"
  and whereFilterOp_gt [simp]: "whereFilterOp ''>'' = Inr OpGt"
  and whereFilterOp_ge [simp]: "whereFilterOp ''>='' = Inr OpGe"
  by (simp_all add: whereFilterOp_def)

lemma successorByIncrement_Jo: "successorByIncrement ''Jo'' = ''Jp''"
  by code_simp

subsection \<open>Combining query sets\<close>

lemma conjoin_Nil [simp]: "conjoin queries [] = []"
  by (simp add: conjoin_def)

lemma conjoin_Cons:
  "conjoin queries (fl # fs) = map (\<lambda>query. query @ fl) queries @ conjoin queries fs"
  by (simp add: conjoin_def)

lemma conjoin_single [simp]: "conjoin queries [fl] = map (\<lambda>query. query @ fl) queries"
  by (simp add: conjoin_def)

lemma conjoin_append [simp]:
  "conjoin queries (fs @ gs) = conjoin queries fs @ conjoin queries gs"
  by (simp add: conjoin_def)

lemma conjoin_seed [simp]: "conjoin [[]] fs = fs"
  by (induction fs) (simp_all add: conjoin_def)

lemma map_conjoin:
  "map (\<lambda>query. query @ g) (conjoin queries fs) = conjoin queries (map (\<lambda>fl. fl @ g) fs)"
  by (induction fs) (simp_all add: conjoin_Cons)

lemma conjoin_assoc: "conjoin (conjoin queries fs) gs = conjoin queries (conjoin fs gs)"
  by (induction gs) (simp_all add: conjoin_Cons map_conjoin)

lemma length_conjoin: "length (conjoin queries fs) = length queries * length fs"
  by (induction fs) (simp_all add: conjoin_def)

lemma concat_map_conjoin: "concat (map (conjoin queries) fss) = conjoin queries (concat fss)"
  by (induction fss) simp_all

subsection \<open>Unfolding applyCondition\<close>

lemma applyCondition_plain:
  "astOperator \<noteq> ''!='' \<Longrightarrow> astOperator \<noteq> ''<>'' \<Longrightarrow>
   applyCondition c queries field astOperator astValue =
     (case c astValue of
        Inl e \<Rightarrow> Inl e
      | Inr v \<Rightarrow>
          (case whereFilterOp astOperator of
             Inl e \<Rightarrow> Inl e
           | Inr operator \<Rightarrow> Inr (map (\<lambda>query. query_where query field operator v) queries)))"
  by (simp add: applyCondition.simps)

lemma applyCondition_neq_bool:
  "astOperator = ''!='' \<or> astOperator = ''<>'' \<Longrightarrow>
   applyCondition c queries field astOperator (BoolValue b) =
     applyCondition c queries field ''='' (BoolValue (\<not> b))"
  by (subst applyCondition.simps) simp

lemma applyCondition_neq_other:
  "astOperator = ''!='' \<or> astOperator = ''<>'' \<Longrightarrow> \<not> is_bool astValue \<Longrightarrow>
   applyCondition c queries field astOperator astValue =
     (case applyCondition c queries field ''<'' astValue of
        Inl e \<Rightarrow> Inl e
      | Inr lt \<Rightarrow>
          (case applyCondition c queries field ''>'' astValue of
             Inl e \<Rightarrow> Inl e
           | Inr gt \<Rightarrow> Inr (lt @ gt)))"
  by (subst applyCondition.simps) simp

text \<open>
  With a converted value and a mapped operator, a condition other than not-equal
  appends one filter to every query.
\<close>

lemma applyCondition_filter:
  assumes "astOperator \<noteq> ''!=''" "astOperator \<noteq> ''<>''"
      and "c astValue = Inr v" "whereFilterOp astOperator = Inr operator"
  shows "applyCondition c queries field astOperator astValue =
           Inr (map (\<lambda>query. query @ [(field, operator, v)]) queries)"
  using assms by (simp add: applyCondition_plain query_where_def)

subsection \<open>A translation acts on every incoming query alike\<close>

text \<open>
  Whether a translation throws does not depend on the incoming queries, and its
  result on any query set is its result on the unfiltered seed \<open>[[]]\<close>, conjoined
  to the incoming queries.
\<close>

lemma applyCondition_seed_plain:
  assumes "astOperator \<noteq> ''!=''" "astOperator \<noteq> ''<>''"
  shows "applyCondition c queries field astOperator astValue =
     (case applyCondition c [[]] field astOperator astValue of
        Inl e \<Rightarrow> Inl e
      | Inr fs \<Rightarrow> Inr (conjoin queries fs))"
  using assms by (simp add: applyCondition_plain query_where_def split: sum.splits)

lemma applyCondition_seed:
  "applyCondition c queries field astOperator astValue =
     (case applyCondition c [[]] field astOperator astValue of
        Inl e \<Rightarrow> Inl e
      | Inr fs \<Rightarrow> Inr (conjoin queries fs))"
proof (cases "astOperator = ''!='' \<or> astOperator = ''<>''")
  case False
  then show ?thesis by (simp add: applyCondition_seed_plain)
next
  case neq: True
  show ?thesis
  proof (cases "is_bool astValue")
    case True
    then obtain b where b: "astValue = BoolValue b" by (cases astValue) simp_all
    show ?thesis
      unfolding b applyCondition_neq_bool [OF neq]
      by (rule applyCondition_seed_plain) simp_all
  next
    case False
    have lt: "applyCondition c queries field ''<'' astValue =
      (case applyCondition c [[]] field ''<'' astValue of
         Inl e \<Rightarrow> Inl e | Inr fs \<Rightarrow> Inr (conjoin queries fs))"
      by (rule applyCondition_seed_plain) simp_all
    have gt: "applyCondition c queries field ''>'' astValue =
      (case applyCondition c [[]] field ''>'' astValue of
         Inl e \<Rightarrow> Inl e | Inr fs \<Rightarrow> Inr (conjoin queries fs))"
      by (rule applyCondition_seed_plain) simp_all
    show ?thesis
      unfolding applyCondition_neq_other [OF neq False]
      by (subst lt, subst gt) (simp split: sum.splits)
  qed
qed

lemma forEach_push_collect:
  "forEach_push c queries col vs newQueries =
     (case collect_results (map (\<lambda>v. applyCondition c queries col ''='' v) vs) of
        Inl e \<Rightarrow> Inl e
      | Inr rs \<Rightarrow> Inr (newQueries @ concat rs))"
  by (induction vs arbitrary: newQueries) (simp_all split: sum.splits)

lemma collect_results_seed:
  "collect_results (map (\<lambda>v. applyCondition c queries col ''='' v) vs) =
     (case collect_results (map (\<lambda>v. applyCondition c [[]] col ''='' v) vs) of
        Inl e \<Rightarrow> Inl e
      | Inr fss \<Rightarrow> Inr (map (conjoin queries) fss))"
proof (induction vs)
  case Nil
  show ?case by simp
next
  case (Cons v vs)
  show ?case
    using Cons.IH applyCondition_seed [of c queries col "''=''" v]
    by (simp split: sum.splits)
qed

lemma forEach_push_seed:
  "forEach_push c queries col vs [] =
     (case forEach_push c [[]] col vs [] of
        Inl e \<Rightarrow> Inl e
      | Inr fs \<Rightarrow> Inr (conjoin queries fs))"
  unfolding forEach_push_collect
  using collect_results_seed [of c queries col vs]
  by (simp add: concat_map_conjoin split: sum.splits)

text \<open>Two translations of this kind, one after the other, and side by side.\<close>

lemma seed_seq:
  assumes g: "\<And>queries. g queries =
                (case g [[]] of Inl e \<Rightarrow> Inl e | Inr fs \<Rightarrow> Inr (conjoin queries fs))"
      and h: "\<And>queries. h queries =
                (case h [[]] of Inl e \<Rightarrow> Inl e | Inr fs \<Rightarrow> Inr (conjoin queries fs))"
  shows "(case g queries of Inl e \<Rightarrow> Inl e | Inr queries1 \<Rightarrow> h queries1) =
     (case (case g [[]] of Inl e \<Rightarrow> Inl e | Inr queries1 \<Rightarrow> h queries1) of
        Inl e \<Rightarrow> Inl e
      | Inr fs \<Rightarrow> Inr (conjoin queries fs))"
proof (cases "g [[]]")
  case (Inl e)
  then show ?thesis using g [of queries] by simp
next
  case gs: (Inr fl)
  show ?thesis
  proof (cases "h [[]]")
    case (Inl e)
    then show ?thesis
      using gs g [of queries] h [of "conjoin queries fl"] h [of fl] by simp
  next
    case (Inr fr)
    then show ?thesis
      using gs g [of queries] h [of "conjoin queries fl"] h [of fl]
      by (simp add: conjoin_assoc)
  qed
qed

lemma seed_alt:
  assumes g: "\<And>queries. g queries =
                (case g [[]] of Inl e \<Rightarrow> Inl e | Inr fs \<Rightarrow> Inr (conjoin queries fs))"
      and h: "\<And>queries. h queries =
                (case h [[]] of Inl e \<Rightarrow> Inl e | Inr fs \<Rightarrow> Inr (conjoin queries fs))"
  shows "(case g queries of Inl e \<Rightarrow> Inl e
          | Inr ql \<Rightarrow> (case h queries of Inl e \<Rightarrow> Inl e | Inr qr \<Rightarrow> Inr (ql @ qr))) =
     (case (case g [[]] of Inl e \<Rightarrow> Inl e
            | Inr ql \<Rightarrow> (case h [[]] of Inl e \<Rightarrow> Inl e | Inr qr \<Rightarrow> Inr (ql @ qr))) of
        Inl e \<Rightarrow> Inl e
      | Inr fs \<Rightarrow> Inr (conjoin queries fs))"
  using g [of queries] h [of queries] by (simp split: sum.splits)

lemma applyWhere_seed:
  "applyWhere c s queries astWhere =
     (case applyWhere c s [[]] astWhere of
        Inl e \<Rightarrow> Inl e
      | Inr fs \<Rightarrow> Inr (conjoin queries fs))"
proof (induction astWhere arbitrary: queries)
  case (BinaryExpr op l r)
  note cond = applyCondition_seed [of c _ "column l"]
  consider "op = ''AND''" | "op = ''OR''" | "op = ''IN''" | "op = ''LIKE''" | "op = ''BETWEEN''"
    | "op \<noteq> ''AND''" "op \<noteq> ''OR''" "op \<noteq> ''IN''" "op \<noteq> ''LIKE''" "op \<noteq> ''BETWEEN''"
    by blast
  then show ?case
  proof cases
    case 1
    show ?thesis
      unfolding 1
      using seed_seq [of "\<lambda>q. applyWhere c s q l" "\<lambda>q. applyWhere c s q r" queries,
                      OF BinaryExpr.IH(1) BinaryExpr.IH(2)]
      by simp
  next
    case 2
    show ?thesis
      unfolding 2
      using seed_alt [of "\<lambda>q. applyWhere c s q l" "\<lambda>q. applyWhere c s q r" queries,
                      OF BinaryExpr.IH(1) BinaryExpr.IH(2)]
      by simp
  next
    case 3
    show ?thesis
      unfolding 3 using forEach_push_seed [of c queries "column l" "list_value r"]
      by (simp add: assert_def)
  next
    case 4
    show ?thesis
      unfolding 4
      using cond [of queries "''=''"]
        seed_seq [of "\<lambda>q. applyCondition c q (column l) ''>='' bw"
                     "\<lambda>q. applyCondition c q (column l) ''<'' v" queries for bw v,
                  OF cond cond]
      by (simp add: assert_def Let_def split: option.splits)
  next
    case 5
    show ?thesis
      unfolding 5
      using seed_seq [of "\<lambda>q. applyCondition c q (column l) ''>='' (list_value r ! 0)"
                         "\<lambda>q. applyCondition c q (column l) ''<='' (list_value r ! 1)" queries,
                      OF cond cond]
      by (simp add: assert_def)
  next
    case 6
    then show ?thesis
      using cond [of queries op r] by (auto simp add: assert_def)
  qed
next
  case (ColumnRef col)
  show ?case by (simp add: query_where_def)
qed simp_all

subsection \<open>The LIKE pattern by its shape\<close>

lemma charAt_first: "charAt str 0 = Some ch \<longleftrightarrow> str \<noteq> [] \<and> hd str = ch"
  by (cases str) (simp_all add: charAt_def)

lemma charAt_final:
  "charAt str (int (length str) - 1) = Some ch \<longleftrightarrow> str \<noteq> [] \<and> last str = ch"
proof (cases "str = []")
  case True
  then show ?thesis by (simp add: charAt_def)
next
  case False
  then have "nat (int (length str) - 1) = length str - 1" by simp
  with False show ?thesis
    by (simp add: charAt_def last_conv_nth)
qed

lemma substr_nonneg:
  assumes "0 \<le> start"
  shows "substr str start len = take (nat len) (drop (nat start) str)"
proof (cases "start < int (length str)")
  case False
  with assms show ?thesis by (simp add: substr_def Let_def)
next
  case inside: True
  let ?rest = "drop (nat start) str"
  have rest: "int (length ?rest) = int (length str) - start"
    using assms inside by simp
  show ?thesis
  proof (cases "len \<le> int (length str) - start")
    case True
    with assms inside show ?thesis
      by (cases "len \<le> 0") (simp_all add: substr_def Let_def)
  next
    case False
    then have "length ?rest \<le> nat len" "length ?rest \<le> nat (int (length str) - start)"
      using rest by linarith+
    then have "take (nat len) ?rest = ?rest" "take (nat (int (length str) - start)) ?rest = ?rest"
      by simp_all
    with False assms inside show ?thesis
      by (simp add: substr_def Let_def)
  qed
qed

lemma substr_inner: "substr str 1 (int (length str) - 2) = butlast (tl str)"
proof -
  have "nat (int (length str) - 2) = length (tl str) - 1"
    by simp
  then show ?thesis
    by (simp add: substr_nonneg butlast_conv_take drop_Suc)
qed

lemma substr_front: "substr str 0 (int (length str) - 1) = butlast str"
proof -
  have "nat (int (length str) - 1) = length str - 1"
    by simp
  then show ?thesis
    by (simp add: substr_nonneg butlast_conv_take)
qed

lemma substring_tail: "substring str 1 = tl str"
  by (cases str) (simp_all add: substring_def)

lemma parseWhereLike_shape:
  "parseWhereLike str =
     (if str \<noteq> [] \<and> hd str = CHR ''%'' then
        (if last str = CHR ''%''
         then \<lparr>beginsWith = None, endsWith = None,
               contains = Some (StringValue (butlast (tl str))), equals = None\<rparr>
         else \<lparr>beginsWith = None, endsWith = Some (StringValue (tl str)),
               contains = None, equals = None\<rparr>)
      else if str \<noteq> [] \<and> last str = CHR ''%''
        then \<lparr>beginsWith = Some (StringValue (butlast str)), endsWith = None,
              contains = None, equals = None\<rparr>
      else \<lparr>beginsWith = None, endsWith = None, contains = None,
            equals = Some (StringValue str)\<rparr>)"
  unfolding parseWhereLike_def Let_def charAt_first charAt_final
    substr_inner substr_front substring_tail stringASTWhereValue_def
  by simp


lemma like_branch_unfold:
  \<open>applyWhere c s queries (BinaryExpr ''LIKE'' (ColumnRef col) (StringValue pattern)) =
     (case equals (parseWhereLike pattern) of
        Some eqv \<Rightarrow> applyCondition c queries col ''='' eqv
      | None \<Rightarrow>
          (case beginsWith (parseWhereLike pattern) of
             Some bw \<Rightarrow>
               (case applyCondition c queries col ''>='' bw of
                  Inl e \<Rightarrow> Inl e
                | Inr queries1 \<Rightarrow>
                    applyCondition c queries1 col ''<'' (StringValue (s (string_value bw))))
           | None \<Rightarrow>
               Inl (Error ''Only terms in the form of "value%" (string begins with value) and "value" (string equals value) are supported with LIKE in WHERE clause.'')))\<close>
  by (simp add: Let_def stringASTWhereValue_def split: option.splits sum.splits)

lemma equals_Some:
  "equals (parseWhereLike pattern :: 'n WhereLikeResult) = Some eqv \<Longrightarrow>
   eqv = StringValue pattern"
  by (auto simp add: parseWhereLike_shape split: if_splits)

lemma beginsWith_Some:
  "beginsWith (parseWhereLike pattern :: 'n WhereLikeResult) = Some bw \<Longrightarrow>
   bw = StringValue (butlast pattern) \<and>
   equals (parseWhereLike pattern :: 'n WhereLikeResult) = None"
  by (auto simp add: parseWhereLike_shape split: if_splits)

lemma like_leading_percent_throws:
  \<open>applyWhere c s queries (BinaryExpr ''LIKE'' (ColumnRef col) (StringValue (CHR ''%'' # text))) =
     Inl (Error ''Only terms in the form of "value%" (string begins with value) and "value" (string equals value) are supported with LIKE in WHERE clause.'')\<close>
  unfolding like_branch_unfold by (simp add: parseWhereLike_shape)

subsection \<open>The BETWEEN branch\<close>

lemma between_branch_unfold:
  "applyWhere c s queries (BinaryExpr ''BETWEEN'' l r) =
     (if \<not> is_column_ref l then Inl (Error ''Unsupported WHERE type on left side.'')
      else if \<not> (is_expr_list r \<and> length (list_value r) = 2)
        then Inl (Error ''BETWEEN needs 2 values in WHERE clause.'')
      else
        (case applyCondition c queries (column l) ''>='' (list_value r ! 0) of
           Inl e \<Rightarrow> Inl e
         | Inr queries1 \<Rightarrow> applyCondition c queries1 (column l) ''<='' (list_value r ! 1)))"
  by auto

section \<open>The claims\<close>

subsection \<open>AND and OR\<close>

text \<open>
  C1. For every query set and expressions \<open>L\<close> and \<open>R\<close>, translating
  \<open>BinaryExpr AND L R\<close> is translating \<open>R\<close> against the result of translating \<open>L\<close>:
  a throw of \<open>L\<close> is the throw of the whole, and otherwise the queries that \<open>L\<close>
  returned are the incoming set of \<open>R\<close>. Every one of them is then narrowed by
  \<open>R\<close>: when \<open>R\<close> translates the unfiltered seed to the filter lists \<open>fr\<close>, the
  result is each query of \<open>L\<close> extended by each list of \<open>fr\<close>. The results of \<open>L\<close>
  and of \<open>R\<close> on the incoming set are not paired up: in the example, a seed of two
  queries gives two queries, each with the filter of \<open>L\<close> and then the filter of
  \<open>R\<close>.
\<close>

theorem applyWhere_AND_sequential:
  "applyWhere c s queries (BinaryExpr ''AND'' L R) =
     (case applyWhere c s queries L of
        Inl e \<Rightarrow> Inl e
      | Inr queriesL \<Rightarrow> applyWhere c s queriesL R) \<and>
   (applyWhere c s queries L = Inr queriesL \<and> applyWhere c s [[]] R = Inr fr \<longrightarrow>
      applyWhere c s queries (BinaryExpr ''AND'' L R) = Inr (conjoin queriesL fr))"
proof (intro conjI impI)
  show "applyWhere c s queries (BinaryExpr ''AND'' L R) =
     (case applyWhere c s queries L of
        Inl e \<Rightarrow> Inl e
      | Inr queriesL \<Rightarrow> applyWhere c s queriesL R)"
    by simp
  assume "applyWhere c s queries L = Inr queriesL \<and> applyWhere c s [[]] R = Inr fr"
  then show "applyWhere c s queries (BinaryExpr ''AND'' L R) = Inr (conjoin queriesL fr)"
    using applyWhere_seed [of c s queriesL R] by simp
qed

theorem applyWhere_AND_sequential_witness:
  "applyWhere literalToNative successorByIncrement
     [[(''a'', OpEq, NativeNumber (1 :: int))], [(''a'', OpEq, NativeNumber 2)]]
     (BinaryExpr ''AND'' (ColumnRef ''x'') (BinaryExpr ''>'' (ColumnRef ''y'') (NumberValue 7))) =
   Inr [[(''a'', OpEq, NativeNumber 1), (''x'', OpEq, NativeBool True),
         (''y'', OpGt, NativeNumber 7)],
        [(''a'', OpEq, NativeNumber 2), (''x'', OpEq, NativeBool True),
         (''y'', OpGt, NativeNumber 7)]]"
proof -
  let ?seed = "[[(''a'', OpEq, NativeNumber (1 :: int))], [(''a'', OpEq, NativeNumber 2)]]"
  let ?L = "ColumnRef ''x'' :: int node"
  let ?R = "BinaryExpr ''>'' (ColumnRef ''y'') (NumberValue (7 :: int))"
  have parts: "applyWhere literalToNative successorByIncrement ?seed ?L =
        Inr [[(''a'', OpEq, NativeNumber 1), (''x'', OpEq, NativeBool True)],
             [(''a'', OpEq, NativeNumber 2), (''x'', OpEq, NativeBool True)]] \<and>
      applyWhere literalToNative successorByIncrement [[]] ?R =
        Inr [[(''y'', OpGt, NativeNumber 7)]]"
    by (simp add: query_where_def applyCondition_plain)
  have "applyWhere literalToNative successorByIncrement ?seed (BinaryExpr ''AND'' ?L ?R) =
      Inr (conjoin [[(''a'', OpEq, NativeNumber 1), (''x'', OpEq, NativeBool True)],
                    [(''a'', OpEq, NativeNumber 2), (''x'', OpEq, NativeBool True)]]
             [[(''y'', OpGt, NativeNumber 7)]])"
    by (rule applyWhere_AND_sequential [THEN conjunct2, THEN mp, OF parts])
  then show ?thesis
    by (simp del: applyWhere.simps)
qed

text \<open>
  C2. When the translations of \<open>L\<close> and of \<open>R\<close> against the same query set both
  succeed, translating \<open>BinaryExpr OR L R\<close> against it returns the queries of \<open>L\<close>
  followed by the queries of \<open>R\<close>, so the length of the result is the sum of the
  two lengths. Nothing is removed: in the example the two branches are the same
  expression and the result holds the same query twice.
\<close>

theorem applyWhere_OR_concat:
  assumes "applyWhere c s queries L = Inr queriesL"
      and "applyWhere c s queries R = Inr queriesR"
  shows "applyWhere c s queries (BinaryExpr ''OR'' L R) = Inr (queriesL @ queriesR) \<and>
         (\<forall>result. applyWhere c s queries (BinaryExpr ''OR'' L R) = Inr result \<longrightarrow>
            length result = length queriesL + length queriesR)"
  using assms by simp

theorem applyWhere_OR_concat_witness:
  "applyWhere literalToNative successorByIncrement [[]]
     (BinaryExpr ''OR'' (ColumnRef ''x'') (ColumnRef ''x'')) =
   Inr [[(''x'', OpEq, NativeBool True)], [(''x'', OpEq, (NativeBool True :: int native))]]"
  using applyWhere_OR_concat [of literalToNative successorByIncrement "[[]]" "ColumnRef ''x''"
      "[[(''x'', OpEq, NativeBool True)]]" "ColumnRef ''x''" "[[(''x'', OpEq, NativeBool True)]]"]
  by (simp add: query_where_def)

text \<open>
  C3. When translating \<open>A AND B\<close> against a seed of one query succeeds, the result
  is a single query if and only if \<open>A\<close> alone and \<open>B\<close> alone each translate to a
  single query against that seed; and then the one resulting query is the seed
  followed by the filters of \<open>A\<close> and then the filters of \<open>B\<close>.
\<close>

theorem applyWhere_AND_singleton:
  assumes "applyWhere c s [seed] (BinaryExpr ''AND'' A B) = Inr result"
  shows "(length result = 1 \<longleftrightarrow>
            (\<exists>qa qb. applyWhere c s [seed] A = Inr [qa] \<and> applyWhere c s [seed] B = Inr [qb])) \<and>
         (\<forall>qa qb. applyWhere c s [seed] A = Inr [qa] \<and> applyWhere c s [seed] B = Inr [qb] \<longrightarrow>
            (\<exists>fa fb. qa = seed @ fa \<and> qb = seed @ fb \<and> result = [seed @ fa @ fb]))"
proof -
  note A = applyWhere_seed [of c s _ A] and B = applyWhere_seed [of c s _ B]
  from assms obtain ra where ra: "applyWhere c s [seed] A = Inr ra"
    and rb: "applyWhere c s ra B = Inr result"
    by (auto split: sum.splits)
  from ra A [of "[seed]"] obtain fas where fas: "applyWhere c s [[]] A = Inr fas"
    and ra_eq: "ra = conjoin [seed] fas"
    by (auto split: sum.splits)
  from rb B [of ra] obtain fbs where fbs: "applyWhere c s [[]] B = Inr fbs"
    and result_eq: "result = conjoin ra fbs"
    by (auto split: sum.splits)
  have b_seed: "applyWhere c s [seed] B = Inr (conjoin [seed] fbs)"
    using B [of "[seed]"] fbs by simp
  have len: "length result = length fas * length fbs"
    by (simp add: result_eq ra_eq length_conjoin)
  have la: "length (conjoin [seed] fas) = length fas"
    and lb: "length (conjoin [seed] fbs) = length fbs"
    by (simp_all add: length_conjoin)
  have iff: "length result = 1 \<longleftrightarrow>
      (\<exists>qa qb. applyWhere c s [seed] A = Inr [qa] \<and> applyWhere c s [seed] B = Inr [qb])"
  proof
    assume "length result = 1"
    then have "length fas = 1" "length fbs = 1" using len by simp_all
    then obtain fa fb where "fas = [fa]" "fbs = [fb]"
      by (auto simp: length_Suc_conv)
    then show "\<exists>qa qb. applyWhere c s [seed] A = Inr [qa] \<and> applyWhere c s [seed] B = Inr [qb]"
      using ra ra_eq b_seed by simp
  next
    assume "\<exists>qa qb. applyWhere c s [seed] A = Inr [qa] \<and> applyWhere c s [seed] B = Inr [qb]"
    then obtain qa qb where "conjoin [seed] fas = [qa]" "conjoin [seed] fbs = [qb]"
      using ra ra_eq b_seed by auto
    then have "length fas = 1" "length fbs = 1" using la lb by simp_all
    then show "length result = 1" using len by simp
  qed
  have union: "\<exists>fa fb. qa = seed @ fa \<and> qb = seed @ fb \<and> result = [seed @ fa @ fb]"
    if "applyWhere c s [seed] A = Inr [qa]" "applyWhere c s [seed] B = Inr [qb]" for qa qb
  proof -
    from that have ca: "conjoin [seed] fas = [qa]" and cb: "conjoin [seed] fbs = [qb]"
      using ra ra_eq b_seed by auto
    then have "length fas = 1" "length fbs = 1" using la lb by simp_all
    then obtain fa fb where f: "fas = [fa]" "fbs = [fb]"
      by (auto simp: length_Suc_conv)
    with ca cb have "qa = seed @ fa" "qb = seed @ fb" by simp_all
    moreover have "result = [seed @ fa @ fb]"
      by (simp add: result_eq ra_eq f)
    ultimately show ?thesis by blast
  qed
  from iff union show ?thesis by blast
qed

theorem applyWhere_AND_singleton_witness:
  "applyWhere literalToNative successorByIncrement [[]]
       (BinaryExpr ''AND'' (ColumnRef ''x'')
          (BinaryExpr ''>'' (ColumnRef ''y'') (NumberValue (7 :: int))))
     = Inr [[(''x'', OpEq, NativeBool True), (''y'', OpGt, NativeNumber 7)]] \<and>
   applyWhere literalToNative successorByIncrement [[]] (ColumnRef ''x'')
     = Inr [[(''x'', OpEq, (NativeBool True :: int native))]] \<and>
   applyWhere literalToNative successorByIncrement [[]]
       (BinaryExpr ''>'' (ColumnRef ''y'') (NumberValue (7 :: int)))
     = Inr [[(''y'', OpGt, NativeNumber 7)]]"
proof -
  let ?A = "ColumnRef ''x'' :: int node"
  let ?B = "BinaryExpr ''>'' (ColumnRef ''y'') (NumberValue (7 :: int))"
  have a: "applyWhere literalToNative successorByIncrement [[]] ?A
             = Inr [[(''x'', OpEq, NativeBool True)]]"
    by (simp add: query_where_def)
  have b: "applyWhere literalToNative successorByIncrement [[]] ?B
             = Inr [[(''y'', OpGt, NativeNumber 7)]]"
    by (simp add: query_where_def assert_def applyCondition_plain whereFilterOp_def)
  obtain result where r: "applyWhere literalToNative successorByIncrement [[]]
      (BinaryExpr ''AND'' ?A ?B) = Inr result"
    by (simp add: query_where_def assert_def applyCondition_plain whereFilterOp_def)
  from applyWhere_AND_singleton [OF r] a b
  have res: "result = [[(''x'', OpEq, NativeBool True), (''y'', OpGt, NativeNumber 7)]]"
    by auto
  show ?thesis
    by (intro conjI) (rule r [unfolded res], rule a, rule b)
qed

subsection \<open>IN\<close>

text \<open>
  C4. For a column on the left and a list of values on the right, translating
  \<open>IN\<close> returns the concatenation, over the values in list order, of
  \<open>applyCondition\<close> with the operator \<open>=\<close> on the incoming queries; the first
  throw among these calls is the throw of the whole. Against a seed of one
  query, with values that all convert, the result has one query per value, the
  i-th being the seed with the filter \<open>col == v\<^sub>i\<close>. A left operand that is not a
  column reference fails with the left-side message, and otherwise a right
  operand that is not an expression list fails with the right-side message.
\<close>

theorem applyWhere_IN:
  "applyWhere c s queries (BinaryExpr ''IN'' (ColumnRef col) (ExprList vs)) =
     (case collect_results (map (\<lambda>v. applyCondition c queries col ''='' v) vs) of
        Inl e \<Rightarrow> Inl e
      | Inr rs \<Rightarrow> Inr (concat rs)) \<and>
   ((\<forall>v \<in> set vs. c v = Inr (nv v)) \<longrightarrow>
      applyWhere c s [seed] (BinaryExpr ''IN'' (ColumnRef col) (ExprList vs)) =
        Inr (map (\<lambda>v. seed @ [(col, OpEq, nv v)]) vs)) \<and>
   (\<not> is_column_ref l \<longrightarrow>
      applyWhere c s queries (BinaryExpr ''IN'' l r) =
        Inl (Error ''Unsupported WHERE type on left side.'')) \<and>
   (is_column_ref l \<and> \<not> is_expr_list r \<longrightarrow>
      applyWhere c s queries (BinaryExpr ''IN'' l r) =
        Inl (Error ''Unsupported WHERE type on right side.''))"
proof (intro conjI impI)
  show concat: "applyWhere c s queries (BinaryExpr ''IN'' (ColumnRef col) (ExprList vs)) =
     (case collect_results (map (\<lambda>v. applyCondition c queries col ''='' v) vs) of
        Inl e \<Rightarrow> Inl e
      | Inr rs \<Rightarrow> Inr (concat rs))" for queries
    by (simp add: forEach_push_collect split: sum.splits)
  show "applyWhere c s [seed] (BinaryExpr ''IN'' (ColumnRef col) (ExprList vs)) =
        Inr (map (\<lambda>v. seed @ [(col, OpEq, nv v)]) vs)"
    if conv: "\<forall>v \<in> set vs. c v = Inr (nv v)"
  proof -
    have "\<forall>v \<in> set vs. applyCondition c [seed] col ''='' v = Inr [seed @ [(col, OpEq, nv v)]]"
      using conv by (simp add: applyCondition_filter)
    then have "collect_results (map (\<lambda>v. applyCondition c [seed] col ''='' v) vs) =
        Inr (map (\<lambda>v. [seed @ [(col, OpEq, nv v)]]) vs)"
      by (rule collect_results_all_Inr)
    then show ?thesis
      by (simp add: forEach_push_collect concat_map_singleton comp_def)
  qed
  show "applyWhere c s queries (BinaryExpr ''IN'' l r) =
        Inl (Error ''Unsupported WHERE type on left side.'')" if "\<not> is_column_ref l"
    using that by simp
  show "applyWhere c s queries (BinaryExpr ''IN'' l r) =
        Inl (Error ''Unsupported WHERE type on right side.'')"
    if "is_column_ref l \<and> \<not> is_expr_list r"
    using that by simp
qed

theorem applyWhere_IN_witness:
  "applyWhere literalToNative successorByIncrement [[]]
     (BinaryExpr ''IN'' (ColumnRef ''col'')
        (ExprList [NumberValue (1 :: int), NumberValue 2, NumberValue 3])) =
     Inr [[(''col'', OpEq, NativeNumber 1)], [(''col'', OpEq, NativeNumber 2)],
          [(''col'', OpEq, NativeNumber 3)]] \<and>
   applyWhere literalToNative successorByIncrement [[]]
     (BinaryExpr ''IN'' (NumberValue (1 :: int)) (ExprList [])) =
     Inl (Error ''Unsupported WHERE type on left side.'') \<and>
   applyWhere literalToNative successorByIncrement [[]]
     (BinaryExpr ''IN'' (ColumnRef ''col'') (NumberValue (1 :: int))) =
     Inl (Error ''Unsupported WHERE type on right side.'')"
  using applyWhere_IN [of literalToNative successorByIncrement "[[]]" "''col''"
      "[NumberValue (1 :: int), NumberValue 2, NumberValue 3]"
      "\<lambda>v. NativeNumber (number_value v)" "[]" "NumberValue 1" "ExprList []"]
    applyWhere_IN [of literalToNative successorByIncrement "[[]]" "''col''" "[]"
      "\<lambda>v. NativeNumber (number_value v)" "[]" "ColumnRef ''col''" "NumberValue 1"]
  by (simp add: applyCondition_plain query_where_def)

subsection \<open>Not-equal\<close>

text \<open>
  C5. For the operators \<open>!=\<close> and \<open><>\<close>: on a boolean literal, \<open>applyCondition\<close>
  is \<open>applyCondition\<close> with \<open>=\<close> on the negated literal, which appends one equality
  filter to every query; on any other value it is the queries of the condition
  with \<open><\<close> followed by the queries of the condition with \<open>>\<close>, so that a seed of
  one query gives two queries, the first with \<open>field < v\<close> and the second with
  \<open>field > v\<close>.
\<close>

theorem applyCondition_not_equal:
  assumes neq: "astOperator = ''!='' \<or> astOperator = ''<>''"
  shows "applyCondition c queries field astOperator (BoolValue b) =
           applyCondition c queries field ''='' (BoolValue (\<not> b)) \<and>
         (c (BoolValue (\<not> b)) = Inr negValue \<longrightarrow>
            applyCondition c queries field astOperator (BoolValue b) =
              Inr (map (\<lambda>query. query @ [(field, OpEq, negValue)]) queries)) \<and>
         (\<not> is_bool astValue \<longrightarrow>
            applyCondition c queries field astOperator astValue =
              (case applyCondition c queries field ''<'' astValue of
                 Inl e \<Rightarrow> Inl e
               | Inr lt \<Rightarrow>
                   (case applyCondition c queries field ''>'' astValue of
                      Inl e \<Rightarrow> Inl e
                    | Inr gt \<Rightarrow> Inr (lt @ gt)))) \<and>
         (\<not> is_bool astValue \<and> c astValue = Inr v \<longrightarrow>
            applyCondition c queries field astOperator astValue =
              Inr (map (\<lambda>query. query @ [(field, OpLt, v)]) queries @
                   map (\<lambda>query. query @ [(field, OpGt, v)]) queries))"
proof (intro conjI impI)
  show "applyCondition c queries field astOperator (BoolValue b) =
          applyCondition c queries field ''='' (BoolValue (\<not> b))"
    by (rule applyCondition_neq_bool [OF neq])
  show "applyCondition c queries field astOperator (BoolValue b) =
          Inr (map (\<lambda>query. query @ [(field, OpEq, negValue)]) queries)"
    if "c (BoolValue (\<not> b)) = Inr negValue"
    using that by (simp add: applyCondition_neq_bool [OF neq] applyCondition_filter)
  show "applyCondition c queries field astOperator astValue =
          (case applyCondition c queries field ''<'' astValue of
             Inl e \<Rightarrow> Inl e
           | Inr lt \<Rightarrow>
               (case applyCondition c queries field ''>'' astValue of
                  Inl e \<Rightarrow> Inl e
                | Inr gt \<Rightarrow> Inr (lt @ gt)))"
    if "\<not> is_bool astValue"
    by (rule applyCondition_neq_other [OF neq that])
  show "applyCondition c queries field astOperator astValue =
          Inr (map (\<lambda>query. query @ [(field, OpLt, v)]) queries @
               map (\<lambda>query. query @ [(field, OpGt, v)]) queries)"
    if "\<not> is_bool astValue \<and> c astValue = Inr v"
    using that by (simp add: applyCondition_neq_other [OF neq] applyCondition_filter)
qed

theorem applyCondition_not_equal_witness:
  "applyCondition literalToNative [[]] ''active'' ''!='' (BoolValue True) =
     Inr [[(''active'', OpEq, (NativeBool False :: int native))]] \<and>
   applyCondition literalToNative [[]] ''rating'' ''<>'' (NumberValue (3 :: int)) =
     Inr [[(''rating'', OpLt, NativeNumber 3)], [(''rating'', OpGt, NativeNumber 3)]]"
proof -
  have bool: "literalToNative (BoolValue (\<not> True)) = Inr (NativeBool False :: int native)"
    by simp
  have num: "\<not> is_bool (NumberValue (3 :: int)) \<and>
      literalToNative (NumberValue (3 :: int)) = Inr (NativeNumber 3)"
    by simp
  have ne: "''!='' = ''!='' \<or> ''!='' = ''<>''" and ltgt: "''<>'' = ''!='' \<or> ''<>'' = ''<>''"
    by simp_all
  note active = applyCondition_not_equal [OF ne, of literalToNative "[[]]" "''active''" True
      "NativeBool False" NullValue NativeNull]
  note rating = applyCondition_not_equal [OF ltgt, of literalToNative "[[]]" "''rating''" True
      "NativeBool False" "NumberValue 3" "NativeNumber 3"]
  have "applyCondition literalToNative [[]] ''active'' ''!='' (BoolValue True) =
      Inr (map (\<lambda>query. query @ [(''active'', OpEq, (NativeBool False :: int native))]) [[]])"
    by (rule active [THEN conjunct2, THEN conjunct1, THEN mp, OF bool])
  moreover
  have "applyCondition literalToNative [[]] ''rating'' ''<>'' (NumberValue (3 :: int)) =
      Inr (map (\<lambda>query. query @ [(''rating'', OpLt, NativeNumber 3)]) [[]] @
           map (\<lambda>query. query @ [(''rating'', OpGt, NativeNumber 3)]) [[]])"
    by (rule rating [THEN conjunct2, THEN conjunct2, THEN conjunct2, THEN mp, OF num])
  ultimately show ?thesis by simp
qed

subsection \<open>LIKE\<close>

text \<open>
  C6. For a column on the left and a string literal on the right of \<open>LIKE\<close>: when
  the pattern decomposes to an equality, the text is the pattern itself and every
  incoming query gets the one filter \<open>col == text\<close>. When it decomposes to a
  prefix, the prefix is the pattern without its final character and the
  translation is the condition \<open>(col, >=, prefix)\<close> followed, on its result, by
  the condition \<open>(col, <, successor prefix)\<close>; with both bounds converted, every
  incoming query gets the two range filters in this order, so that a seed of one
  query gives one query.
\<close>

theorem applyWhere_LIKE:
  "(equals (parseWhereLike pattern) = Some eqv \<and> c eqv = Inr v \<longrightarrow>
      eqv = StringValue pattern \<and>
      applyWhere c s queries (BinaryExpr ''LIKE'' (ColumnRef col) (StringValue pattern)) =
        Inr (map (\<lambda>query. query @ [(col, OpEq, v)]) queries)) \<and>
   (beginsWith (parseWhereLike pattern) = Some bw \<longrightarrow>
      bw = StringValue (butlast pattern) \<and>
      applyWhere c s queries (BinaryExpr ''LIKE'' (ColumnRef col) (StringValue pattern)) =
        (case applyCondition c queries col ''>='' bw of
           Inl e \<Rightarrow> Inl e
         | Inr queries1 \<Rightarrow>
             applyCondition c queries1 col ''<'' (StringValue (s (butlast pattern))))) \<and>
   (beginsWith (parseWhereLike pattern) = Some bw \<and> c bw = Inr lo \<and>
    c (StringValue (s (butlast pattern))) = Inr hi \<longrightarrow>
      applyWhere c s queries (BinaryExpr ''LIKE'' (ColumnRef col) (StringValue pattern)) =
        Inr (map (\<lambda>query. query @ [(col, OpGe, lo), (col, OpLt, hi)]) queries))"
proof (intro conjI impI)
  assume eq: "equals (parseWhereLike pattern) = Some eqv \<and> c eqv = Inr v"
  then show "eqv = StringValue pattern"
    by (simp add: equals_Some)
  from eq show "applyWhere c s queries (BinaryExpr ''LIKE'' (ColumnRef col) (StringValue pattern)) =
        Inr (map (\<lambda>query. query @ [(col, OpEq, v)]) queries)"
    unfolding like_branch_unfold by (simp add: applyCondition_filter)
next
  assume bw: "beginsWith (parseWhereLike pattern) = Some bw"
  note shape = beginsWith_Some [OF bw, THEN conjunct1]
    and none = beginsWith_Some [OF bw, THEN conjunct2]
  show "bw = StringValue (butlast pattern)"
    by (rule shape)
  show "applyWhere c s queries (BinaryExpr ''LIKE'' (ColumnRef col) (StringValue pattern)) =
        (case applyCondition c queries col ''>='' bw of
           Inl e \<Rightarrow> Inl e
         | Inr queries1 \<Rightarrow>
             applyCondition c queries1 col ''<'' (StringValue (s (butlast pattern))))"
    unfolding like_branch_unfold using bw none shape by (simp split: sum.splits)
next
  assume pre: "beginsWith (parseWhereLike pattern) = Some bw \<and> c bw = Inr lo \<and>
    c (StringValue (s (butlast pattern))) = Inr hi"
  then have bw: "beginsWith (parseWhereLike pattern) = Some bw" by simp
  note shape = beginsWith_Some [OF bw, THEN conjunct1]
    and none = beginsWith_Some [OF bw, THEN conjunct2]
  show "applyWhere c s queries (BinaryExpr ''LIKE'' (ColumnRef col) (StringValue pattern)) =
        Inr (map (\<lambda>query. query @ [(col, OpGe, lo), (col, OpLt, hi)]) queries)"
    unfolding like_branch_unfold using pre none shape
    by (simp add: applyCondition_filter comp_def)
qed

theorem applyWhere_LIKE_witness:
  "applyWhere literalToNative successorByIncrement [[]]
     (BinaryExpr ''LIKE'' (ColumnRef ''name'') (StringValue ''Jo%'')) =
     Inr [[(''name'', OpGe, NativeString ''Jo''), (''name'', OpLt, (NativeString ''Jp'' :: int native))]] \<and>
   applyWhere literalToNative successorByIncrement [[]]
     (BinaryExpr ''LIKE'' (ColumnRef ''name'') (StringValue ''Jo'')) =
     Inr [[(''name'', OpEq, (NativeString ''Jo'' :: int native))]]"
proof -
  have prefix: "beginsWith (parseWhereLike ''Jo%'') = Some (StringValue ''Jo'' :: int node) \<and>
      literalToNative (StringValue ''Jo'' :: int node) = Inr (NativeString ''Jo'') \<and>
      literalToNative (StringValue (successorByIncrement (butlast ''Jo%'')) :: int node) =
        Inr (NativeString ''Jp'')"
    by (simp add: parseWhereLike_shape successorByIncrement_Jo)
  have equal: "equals (parseWhereLike ''Jo'') = Some (StringValue ''Jo'' :: int node) \<and>
      literalToNative (StringValue ''Jo'' :: int node) = Inr (NativeString ''Jo'')"
    by (simp add: parseWhereLike_shape)
  note like = applyWhere_LIKE [where c = literalToNative and s = successorByIncrement
      and queries = "[[]]" and col = "''name''"]
  have "applyWhere literalToNative successorByIncrement [[]]
     (BinaryExpr ''LIKE'' (ColumnRef ''name'') (StringValue ''Jo%'')) =
     Inr (map (\<lambda>query. query @ [(''name'', OpGe, NativeString ''Jo''),
        (''name'', OpLt, (NativeString ''Jp'' :: int native))]) [[]])"
    by (rule like [THEN conjunct2, THEN conjunct2, THEN mp, OF prefix])
  moreover
  have "applyWhere literalToNative successorByIncrement [[]]
     (BinaryExpr ''LIKE'' (ColumnRef ''name'') (StringValue ''Jo'')) =
     Inr (map (\<lambda>query. query @ [(''name'', OpEq, (NativeString ''Jo'' :: int native))]) [[]])"
    by (rule like [THEN conjunct1, THEN mp, OF equal, THEN conjunct2])
  ultimately show ?thesis by simp
qed

text \<open>
  C7. The decomposer \<open>parseWhereLike\<close> has a result for every string and no
  throwing branch. Exactly one of its four fields is populated, and which one
  depends only on whether the first and the last character of the pattern are
  \<open>%\<close>: both give \<open>contains\<close>, the first only \<open>endsWith\<close>, the last only
  \<open>beginsWith\<close>, neither \<open>equals\<close>. The unsupported shapes are refused by the
  translator: \<open>col LIKE '%text%'\<close> and \<open>col LIKE '%text'\<close> throw the error of
  the final \<open>else\<close> of the LIKE branch, for every \<open>text\<close>.
\<close>

theorem parseWhereLike_total:
  \<open>(let result = parseWhereLike str :: 'n WhereLikeResult;
        leading = (str \<noteq> [] \<and> hd str = CHR ''%'');
        trailing = (str \<noteq> [] \<and> last str = CHR ''%'')
    in length (filter (\<lambda>field. field \<noteq> None)
         [beginsWith result, endsWith result, contains result, equals result]) = 1 \<and>
       (leading \<and> trailing \<longrightarrow>
          result = \<lparr>beginsWith = None, endsWith = None,
                    contains = Some (StringValue (butlast (tl str))), equals = None\<rparr>) \<and>
       (leading \<and> \<not> trailing \<longrightarrow>
          result = \<lparr>beginsWith = None, endsWith = Some (StringValue (tl str)),
                    contains = None, equals = None\<rparr>) \<and>
       (\<not> leading \<and> trailing \<longrightarrow>
          result = \<lparr>beginsWith = Some (StringValue (butlast str)), endsWith = None,
                    contains = None, equals = None\<rparr>) \<and>
       (\<not> leading \<and> \<not> trailing \<longrightarrow>
          result = \<lparr>beginsWith = None, endsWith = None, contains = None,
                    equals = Some (StringValue str)\<rparr>)) \<and>
   applyWhere c s queries
       (BinaryExpr ''LIKE'' (ColumnRef col) (StringValue (CHR ''%'' # text @ ''%''))) =
     Inl (Error ''Only terms in the form of "value%" (string begins with value) and "value" (string equals value) are supported with LIKE in WHERE clause.'') \<and>
   applyWhere c s queries
       (BinaryExpr ''LIKE'' (ColumnRef col) (StringValue (CHR ''%'' # text))) =
     Inl (Error ''Only terms in the form of "value%" (string begins with value) and "value" (string equals value) are supported with LIKE in WHERE clause.'')\<close>
proof (intro conjI)
  show \<open>let result = parseWhereLike str :: 'n WhereLikeResult;
        leading = (str \<noteq> [] \<and> hd str = CHR ''%'');
        trailing = (str \<noteq> [] \<and> last str = CHR ''%'')
    in length (filter (\<lambda>field. field \<noteq> None)
         [beginsWith result, endsWith result, contains result, equals result]) = 1 \<and>
       (leading \<and> trailing \<longrightarrow>
          result = \<lparr>beginsWith = None, endsWith = None,
                    contains = Some (StringValue (butlast (tl str))), equals = None\<rparr>) \<and>
       (leading \<and> \<not> trailing \<longrightarrow>
          result = \<lparr>beginsWith = None, endsWith = Some (StringValue (tl str)),
                    contains = None, equals = None\<rparr>) \<and>
       (\<not> leading \<and> trailing \<longrightarrow>
          result = \<lparr>beginsWith = Some (StringValue (butlast str)), endsWith = None,
                    contains = None, equals = None\<rparr>) \<and>
       (\<not> leading \<and> \<not> trailing \<longrightarrow>
          result = \<lparr>beginsWith = None, endsWith = None, contains = None,
                    equals = Some (StringValue str)\<rparr>)\<close>
    unfolding Let_def parseWhereLike_shape by auto
qed (rule like_leading_percent_throws)+

theorem parseWhereLike_total_witness:
  \<open>parseWhereLike ''%abc%'' =
     \<lparr>beginsWith = None, endsWith = None,
      contains = Some (StringValue ''abc'' :: int node), equals = None\<rparr> \<and>
   parseWhereLike ''%abc'' =
     \<lparr>beginsWith = None, endsWith = Some (StringValue ''abc'' :: int node),
      contains = None, equals = None\<rparr> \<and>
   parseWhereLike ''abc%'' =
     \<lparr>beginsWith = Some (StringValue ''abc'' :: int node), endsWith = None,
      contains = None, equals = None\<rparr> \<and>
   parseWhereLike ''abc'' =
     \<lparr>beginsWith = None, endsWith = None, contains = None,
      equals = Some (StringValue ''abc'' :: int node)\<rparr> \<and>
   applyWhere (literalToNative :: int converter) successorByIncrement [[]]
       (BinaryExpr ''LIKE'' (ColumnRef ''name'') (StringValue ''%abc%'')) =
     Inl (Error ''Only terms in the form of "value%" (string begins with value) and "value" (string equals value) are supported with LIKE in WHERE clause.'') \<and>
   applyWhere (literalToNative :: int converter) successorByIncrement [[]]
       (BinaryExpr ''LIKE'' (ColumnRef ''name'') (StringValue ''%abc'')) =
     Inl (Error ''Only terms in the form of "value%" (string begins with value) and "value" (string equals value) are supported with LIKE in WHERE clause.'')\<close>
proof -
  note total = parseWhereLike_total [where 'n = int and c = literalToNative
      and s = successorByIncrement and queries = "[[]]" and col = "''name''"]
  have "parseWhereLike ''%abc%'' =
     \<lparr>beginsWith = None, endsWith = None,
      contains = Some (StringValue ''abc'' :: int node), equals = None\<rparr>"
    using total [of "''%abc%''" "''abc''", THEN conjunct1] by (simp add: Let_def)
  moreover have "parseWhereLike ''%abc'' =
     \<lparr>beginsWith = None, endsWith = Some (StringValue ''abc'' :: int node),
      contains = None, equals = None\<rparr>"
    using total [of "''%abc''" "''abc''", THEN conjunct1] by (simp add: Let_def)
  moreover have "parseWhereLike ''abc%'' =
     \<lparr>beginsWith = Some (StringValue ''abc'' :: int node), endsWith = None,
      contains = None, equals = None\<rparr>"
    using total [of "''abc%''" "''abc''", THEN conjunct1] by (simp add: Let_def)
  moreover have "parseWhereLike ''abc'' =
     \<lparr>beginsWith = None, endsWith = None, contains = None,
      equals = Some (StringValue ''abc'' :: int node)\<rparr>"
    using total [of "''abc''" "''abc''", THEN conjunct1] by (simp add: Let_def)
  moreover have \<open>applyWhere (literalToNative :: int converter) successorByIncrement [[]]
       (BinaryExpr ''LIKE'' (ColumnRef ''name'') (StringValue ''%abc%'')) =
     Inl (Error ''Only terms in the form of "value%" (string begins with value) and "value" (string equals value) are supported with LIKE in WHERE clause.'')\<close>
    using total [of "''abc''" "''abc''", THEN conjunct2, THEN conjunct1] by simp
  moreover note total [of "''abc''" "''abc''", THEN conjunct2, THEN conjunct2]
  ultimately show ?thesis by (intro conjI)
qed

subsection \<open>The operator mapper\<close>

text \<open>
  C8. \<open>whereFilterOp\<close> maps \<open>=\<close> and \<open>IS\<close> to \<open>==\<close>, maps each of \<open><\<close>, \<open><=\<close>,
  \<open>>\<close>, \<open>>=\<close> to the operator with the same string, maps \<open>CONTAINS\<close> to
  \<open>array-contains\<close> and \<open>CONTAINS-ANY\<close> to \<open>array-contains-any\<close>, throws the
  unsupported-operator error for \<open>NOT\<close> and \<open>NOT CONTAINS\<close>, and throws the
  unknown-operator error for every other token. It returns a filter operator for
  the eight mapped tokens and for no other.
\<close>

theorem whereFilterOp_table:
  \<open>whereFilterOp ''='' = Inr OpEq \<and> whereFilterOp ''IS'' = Inr OpEq \<and>
   WhereFilterOp_string OpEq = ''=='' \<and>
   (op \<in> {''<'', ''<='', ''>'', ''>=''} \<longrightarrow>
      (\<exists>newOp. whereFilterOp op = Inr newOp \<and> WhereFilterOp_string newOp = op)) \<and>
   whereFilterOp ''CONTAINS'' = Inr OpArrayContains \<and>
   WhereFilterOp_string OpArrayContains = ''array-contains'' \<and>
   whereFilterOp ''CONTAINS-ANY'' = Inr OpArrayContainsAny \<and>
   WhereFilterOp_string OpArrayContainsAny = ''array-contains-any'' \<and>
   whereFilterOp ''NOT'' = Inl (Error ''"NOT" WHERE operator unsupported'') \<and>
   whereFilterOp ''NOT CONTAINS'' = Inl (Error ''"NOT" WHERE operator unsupported'') \<and>
   (op \<notin> {''='', ''IS'', ''<'', ''<='', ''>'', ''>='', ''CONTAINS'', ''CONTAINS-ANY'',
            ''NOT'', ''NOT CONTAINS''} \<longrightarrow>
      whereFilterOp op = Inl (Error ''Unknown WHERE operator'')) \<and>
   ((\<exists>newOp. whereFilterOp op = Inr newOp) \<longleftrightarrow>
      op \<in> {''='', ''IS'', ''<'', ''<='', ''>'', ''>='', ''CONTAINS'', ''CONTAINS-ANY''})\<close>
proof -
  have mapped: \<open>whereFilterOp ''='' = Inr OpEq\<close> \<open>whereFilterOp ''IS'' = Inr OpEq\<close>
    \<open>whereFilterOp ''CONTAINS'' = Inr OpArrayContains\<close>
    \<open>whereFilterOp ''CONTAINS-ANY'' = Inr OpArrayContainsAny\<close>
    \<open>whereFilterOp ''NOT'' = Inl (Error ''"NOT" WHERE operator unsupported'')\<close>
    \<open>whereFilterOp ''NOT CONTAINS'' = Inl (Error ''"NOT" WHERE operator unsupported'')\<close>
    by (simp_all add: whereFilterOp_def)
  have pass: \<open>\<exists>newOp. whereFilterOp op = Inr newOp \<and> WhereFilterOp_string newOp = op\<close>
    if \<open>op \<in> {''<'', ''<='', ''>'', ''>=''}\<close>
    using that by (auto simp add: whereFilterOp_def)
  have unknown: \<open>whereFilterOp op = Inl (Error ''Unknown WHERE operator'')\<close>
    if \<open>op \<notin> {''='', ''IS'', ''<'', ''<='', ''>'', ''>='', ''CONTAINS'', ''CONTAINS-ANY'',
            ''NOT'', ''NOT CONTAINS''}\<close>
    using that by (simp add: whereFilterOp_def)
  have only: \<open>(\<exists>newOp. whereFilterOp op = Inr newOp) \<longleftrightarrow>
      op \<in> {''='', ''IS'', ''<'', ''<='', ''>'', ''>='', ''CONTAINS'', ''CONTAINS-ANY''}\<close>
    by (auto simp add: whereFilterOp_def split: if_splits)
  from mapped pass unknown only show ?thesis
    by (intro conjI impI) simp_all
qed

theorem whereFilterOp_table_witness:
  \<open>whereFilterOp ''LIKE'' = Inl (Error ''Unknown WHERE operator'') \<and>
   whereFilterOp ''!='' = Inl (Error ''Unknown WHERE operator'') \<and>
   whereFilterOp ''NOT'' = Inl (Error ''"NOT" WHERE operator unsupported'')\<close>
proof -
  have like: \<open>''LIKE'' \<notin> {''='', ''IS'', ''<'', ''<='', ''>'', ''>='', ''CONTAINS'',
      ''CONTAINS-ANY'', ''NOT'', ''NOT CONTAINS''}\<close>
    and neq: \<open>''!='' \<notin> {''='', ''IS'', ''<'', ''<='', ''>'', ''>='', ''CONTAINS'',
      ''CONTAINS-ANY'', ''NOT'', ''NOT CONTAINS''}\<close>
    by simp_all
  note tail = conjunct2 [THEN conjunct2, THEN conjunct2, THEN conjunct2, THEN conjunct2,
      THEN conjunct2, THEN conjunct2, THEN conjunct2]
  have \<open>whereFilterOp ''LIKE'' = Inl (Error ''Unknown WHERE operator'')\<close>
    by (rule whereFilterOp_table [of "''LIKE''", THEN tail, THEN conjunct2, THEN conjunct2,
          THEN conjunct1, THEN mp, OF like])
  moreover have \<open>whereFilterOp ''!='' = Inl (Error ''Unknown WHERE operator'')\<close>
    by (rule whereFilterOp_table [of "''!=''", THEN tail, THEN conjunct2, THEN conjunct2,
          THEN conjunct1, THEN mp, OF neq])
  moreover have \<open>whereFilterOp ''NOT'' = Inl (Error ''"NOT" WHERE operator unsupported'')\<close>
    by (rule whereFilterOp_table [of "''NOT''", THEN tail, THEN conjunct1])
  ultimately show ?thesis by (intro conjI)
qed

subsection \<open>BETWEEN\<close>

text \<open>
  C9. For a column on the left and a list of exactly two values on the right,
  translating \<open>BETWEEN\<close> is the condition \<open>(col, >=, lo)\<close> followed, on its
  result, by the condition \<open>(col, <=, hi)\<close>; with both values converted, every
  incoming query gets the two filters in this order, so that a seed of one query
  gives one query. A right operand that is not a list of exactly two values
  makes the translation throw: the arity error when the left operand is a column
  reference, the left-side error otherwise.
\<close>

theorem applyWhere_BETWEEN:
  "applyWhere c s queries (BinaryExpr ''BETWEEN'' (ColumnRef col) (ExprList [lo, hi])) =
     (case applyCondition c queries col ''>='' lo of
        Inl e \<Rightarrow> Inl e
      | Inr queries1 \<Rightarrow> applyCondition c queries1 col ''<='' hi) \<and>
   (c lo = Inr vlo \<and> c hi = Inr vhi \<longrightarrow>
      applyWhere c s queries (BinaryExpr ''BETWEEN'' (ColumnRef col) (ExprList [lo, hi])) =
        Inr (map (\<lambda>query. query @ [(col, OpGe, vlo), (col, OpLe, vhi)]) queries)) \<and>
   ((\<forall>vs. r = ExprList vs \<longrightarrow> length vs \<noteq> 2) \<longrightarrow>
      applyWhere c s queries (BinaryExpr ''BETWEEN'' l r) =
        Inl (Error (if is_column_ref l then ''BETWEEN needs 2 values in WHERE clause.''
                    else ''Unsupported WHERE type on left side.'')))"
proof (intro conjI impI)
  show "applyWhere c s queries (BinaryExpr ''BETWEEN'' (ColumnRef col) (ExprList [lo, hi])) =
     (case applyCondition c queries col ''>='' lo of
        Inl e \<Rightarrow> Inl e
      | Inr queries1 \<Rightarrow> applyCondition c queries1 col ''<='' hi)"
    by (simp split: sum.splits)
  show "applyWhere c s queries (BinaryExpr ''BETWEEN'' (ColumnRef col) (ExprList [lo, hi])) =
        Inr (map (\<lambda>query. query @ [(col, OpGe, vlo), (col, OpLe, vhi)]) queries)"
    if "c lo = Inr vlo \<and> c hi = Inr vhi"
    using that by (simp add: applyCondition_filter comp_def)
  show "applyWhere c s queries (BinaryExpr ''BETWEEN'' l r) =
        Inl (Error (if is_column_ref l then ''BETWEEN needs 2 values in WHERE clause.''
                    else ''Unsupported WHERE type on left side.''))"
    if arity: "\<forall>vs. r = ExprList vs \<longrightarrow> length vs \<noteq> 2"
  proof -
    have "\<not> (is_expr_list r \<and> length (list_value r) = 2)"
      using arity by (cases r) simp_all
    then show ?thesis
      unfolding between_branch_unfold by simp
  qed
qed

theorem applyWhere_BETWEEN_witness:
  "applyWhere literalToNative successorByIncrement [[]]
     (BinaryExpr ''BETWEEN'' (ColumnRef ''rating'')
        (ExprList [NumberValue (2 :: int), NumberValue 5])) =
     Inr [[(''rating'', OpGe, NativeNumber 2), (''rating'', OpLe, NativeNumber 5)]] \<and>
   applyWhere literalToNative successorByIncrement [[]]
     (BinaryExpr ''BETWEEN'' (ColumnRef ''rating'')
        (ExprList [NumberValue (2 :: int), NumberValue 5, NumberValue 7])) =
     Inl (Error ''BETWEEN needs 2 values in WHERE clause.'') \<and>
   applyWhere literalToNative successorByIncrement [[]]
     (BinaryExpr ''BETWEEN'' (ColumnRef ''rating'') (NumberValue (2 :: int))) =
     Inl (Error ''BETWEEN needs 2 values in WHERE clause.'')"
proof -
  note between = applyWhere_BETWEEN [where c = literalToNative and s = successorByIncrement
      and queries = "[[]]"]
  have conv: "literalToNative (NumberValue (2 :: int)) = Inr (NativeNumber 2) \<and>
      literalToNative (NumberValue (5 :: int)) = Inr (NativeNumber 5)"
    by simp
  have three: "\<forall>vs. ExprList [NumberValue (2 :: int), NumberValue 5, NumberValue 7] = ExprList vs
      \<longrightarrow> length vs \<noteq> 2"
    by simp
  have number: "\<forall>vs. NumberValue (2 :: int) = ExprList vs \<longrightarrow> length vs \<noteq> 2"
    by simp
  have "applyWhere literalToNative successorByIncrement [[]]
     (BinaryExpr ''BETWEEN'' (ColumnRef ''rating'')
        (ExprList [NumberValue (2 :: int), NumberValue 5])) =
     Inr (map (\<lambda>query. query @ [(''rating'', OpGe, NativeNumber 2),
        (''rating'', OpLe, NativeNumber 5)]) [[]])"
    by (rule between [THEN conjunct2, THEN conjunct1, THEN mp, OF conv])
  moreover
  have "applyWhere literalToNative successorByIncrement [[]]
     (BinaryExpr ''BETWEEN'' (ColumnRef ''rating'')
        (ExprList [NumberValue (2 :: int), NumberValue 5, NumberValue 7])) =
     Inl (Error (if is_column_ref (ColumnRef ''rating'' :: int node)
                 then ''BETWEEN needs 2 values in WHERE clause.''
                 else ''Unsupported WHERE type on left side.''))"
    by (rule between [THEN conjunct2, THEN conjunct2, THEN mp, OF three])
  moreover
  have "applyWhere literalToNative successorByIncrement [[]]
     (BinaryExpr ''BETWEEN'' (ColumnRef ''rating'') (NumberValue (2 :: int))) =
     Inl (Error (if is_column_ref (ColumnRef ''rating'' :: int node)
                 then ''BETWEEN needs 2 values in WHERE clause.''
                 else ''Unsupported WHERE type on left side.''))"
    by (rule between [THEN conjunct2, THEN conjunct2, THEN mp, OF number])
  ultimately show ?thesis by simp
qed

subsection \<open>The pattern of one percent sign\<close>

text \<open>
  C10. On the pattern \<open>%\<close> the decomposer takes the branch of a leading and a
  trailing \<open>%\<close> and returns \<open>contains\<close> holding the empty string, so translating
  \<open>col LIKE '%'\<close> throws the unsupported-shape error and returns no query.
\<close>

theorem parseWhereLike_percent:
  \<open>parseWhereLike ''%'' =
     \<lparr>beginsWith = None, endsWith = None, contains = Some (StringValue []),
      equals = None\<rparr> \<and>
   applyWhere c s queries (BinaryExpr ''LIKE'' (ColumnRef col) (StringValue ''%'')) =
     Inl (Error ''Only terms in the form of "value%" (string begins with value) and "value" (string equals value) are supported with LIKE in WHERE clause.'')\<close>
  by (simp add: parseWhereLike_shape like_leading_percent_throws del: applyWhere.simps)

theorem parseWhereLike_percent_witness:
  \<open>parseWhereLike ''%'' =
     \<lparr>beginsWith = None, endsWith = None, contains = Some (StringValue [] :: int node),
      equals = None\<rparr> \<and>
   applyWhere (literalToNative :: int converter) successorByIncrement [[]]
       (BinaryExpr ''LIKE'' (ColumnRef ''name'') (StringValue ''%'')) =
     Inl (Error ''Only terms in the form of "value%" (string begins with value) and "value" (string equals value) are supported with LIKE in WHERE clause.'')\<close>
  by (rule parseWhereLike_percent)

end
